theory Spec2Isabelle
  imports Complex_Main "HOL-Library.AList"
begin

section \<open>Subscription dashboard cache (api/subscription/cache.py)\<close>

text \<open>
  The module keeps two process-wide dictionaries, \<open>_dashboard_cache\<close> and
  \<open>_dashboard_cache_ts\<close>, both keyed by user id.  They are modelled as one record of
  two maps that every operation receives and returns.  What the functions read from
  outside the module (the environment variables and \<open>time.time()\<close>) is the
  \<open>world\<close> record.  Clock readings are modelled as real numbers; the rounding of
  Python's floats is not modelled.
\<close>

record 'v dashboard_store =
  dashboard_cache :: "string \<rightharpoonup> 'v"
  dashboard_cache_ts :: "string \<rightharpoonup> real"

record world =
  environ :: "string \<rightharpoonup> string"
  time_now :: real

definition DASHBOARD_CACHE_TTL_SEC :: real where
  "DASHBOARD_CACHE_TTL_SEC = 600"

definition empty_store :: "'v dashboard_store" where
  "empty_store = \<lparr>dashboard_cache = Map.empty, dashboard_cache_ts = Map.empty\<rparr>"

text \<open>\<open>str.lower()\<close> on the ASCII letters; every other character is left alone.\<close>

definition lower_char :: "char \<Rightarrow> char" where
  "lower_char c =
     (case map_of (zip ''ABCDEFGHIJKLMNOPQRSTUVWXYZ'' ''abcdefghijklmnopqrstuvwxyz'') c of
        Some d \<Rightarrow> d
      | None \<Rightarrow> c)"

definition lower :: "string \<Rightarrow> string" where
  "lower s = map lower_char s"

text \<open>\<open>os.getenv(name, default)\<close>.\<close>

definition getenv :: "(string \<rightharpoonup> string) \<Rightarrow> string \<Rightarrow> string \<Rightarrow> string" where
  "getenv env name dflt = (case env name of None \<Rightarrow> dflt | Some v \<Rightarrow> v)"

definition nocache :: "world \<Rightarrow> bool" where
  "nocache w =
     (lower (getenv (environ w) ''SUBSCRIPTION_DASHBOARD_NOCACHE'' ''false'')
        \<in> set [''1'', ''true'', ''yes'', ''on''])"

text \<open>
  \<open>get_cached_dashboard\<close> returns the cached value or \<open>None\<close>.  The model also returns
  the store as the call leaves it, so that what a read does to the dictionaries can be
  stated; the source assigns to neither dictionary.
\<close>

definition get_cached_dashboard ::
  "world \<Rightarrow> string \<Rightarrow> 'v dashboard_store \<Rightarrow> 'v option \<times> 'v dashboard_store" where
  "get_cached_dashboard w user_id st =
     (if nocache w then (None, st)
      else
        let now = time_now w in
        if dashboard_cache st user_id \<noteq> None
           \<and> now - (case dashboard_cache_ts st user_id of None \<Rightarrow> 0 | Some t \<Rightarrow> t)
                 < DASHBOARD_CACHE_TTL_SEC
        then (dashboard_cache st user_id, st)
        else (None, st))"

definition set_cached_dashboard ::
  "world \<Rightarrow> string \<Rightarrow> 'v \<Rightarrow> 'v dashboard_store \<Rightarrow> 'v dashboard_store" where
  "set_cached_dashboard w user_id data st =
     st\<lparr>dashboard_cache := (dashboard_cache st)(user_id \<mapsto> data),
        dashboard_cache_ts := (dashboard_cache_ts st)(user_id \<mapsto> time_now w)\<rparr>"

text \<open>
  \<open>clear_dashboard_cache(user_id=None)\<close>: the test \<open>if user_id:\<close> sends both
  \<open>None\<close> and the empty string to the branch that clears everything.
\<close>

definition clear_dashboard_cache ::
  "string option \<Rightarrow> 'v dashboard_store \<Rightarrow> 'v dashboard_store" where
  "clear_dashboard_cache user_id st =
     (case user_id of
        Some u \<Rightarrow>
          if u \<noteq> [] then
            st\<lparr>dashboard_cache := (dashboard_cache st)(u := None),
               dashboard_cache_ts := (dashboard_cache_ts st)(u := None)\<rparr>
          else st\<lparr>dashboard_cache := Map.empty, dashboard_cache_ts := Map.empty\<rparr>
      | None \<Rightarrow> st\<lparr>dashboard_cache := Map.empty, dashboard_cache_ts := Map.empty\<rparr>)"

text \<open>
  A caller of the module: one call of one of the three functions, made in some world.
  \<open>run_calls\<close> performs a sequence of calls on the store.
\<close>

datatype 'v cache_call =
    CallGet string
  | CallSet string 'v
  | CallClear "string option"

fun do_call :: "world \<times> 'v cache_call \<Rightarrow> 'v dashboard_store \<Rightarrow> 'v dashboard_store" where
  "do_call (w, CallGet u) st = snd (get_cached_dashboard w u st)"
| "do_call (w, CallSet u v) st = set_cached_dashboard w u v st"
| "do_call (w, CallClear uo) st = clear_dashboard_cache uo st"

fun run_calls :: "(world \<times> 'v cache_call) list \<Rightarrow> 'v dashboard_store \<Rightarrow> 'v dashboard_store" where
  "run_calls [] st = st"
| "run_calls (c # cs) st = run_calls cs (do_call c st)"

text \<open>A call is a set or a clear for user \<open>u\<close> when it can change the entry of \<open>u\<close>.\<close>

fun sets_or_clears :: "string \<Rightarrow> 'v cache_call \<Rightarrow> bool" where
  "sets_or_clears u (CallGet u') = False"
| "sets_or_clears u (CallSet u' v) = (u' = u)"
| "sets_or_clears u (CallClear None) = True"
| "sets_or_clears u (CallClear (Some u')) = (u' = [] \<or> u' = u)"

fun no_set_or_clear :: "string \<Rightarrow> (world \<times> 'v cache_call) list \<Rightarrow> bool" where
  "no_set_or_clear u [] = True"
| "no_set_or_clear u (c # cs) = (\<not> sets_or_clears u (snd c) \<and> no_set_or_clear u cs)"

text \<open>
  A value of the variable is one of the four words "case-insensitively" when it is the
  word with some of its letters in upper case.
\<close>

definition upper_char :: "char \<Rightarrow> char" where
  "upper_char c =
     (case map_of (zip ''abcdefghijklmnopqrstuvwxyz'' ''ABCDEFGHIJKLMNOPQRSTUVWXYZ'') c of
        Some d \<Rightarrow> d
      | None \<Rightarrow> c)"

fun same_ignoring_case :: "string \<Rightarrow> string \<Rightarrow> bool" where
  "same_ignoring_case [] [] = True"
| "same_ignoring_case (c # cs) (d # ds) =
     ((c = d \<or> c = upper_char d) \<and> same_ignoring_case cs ds)"
| "same_ignoring_case _ _ = False"

section \<open>Values and exceptions shared by the request handlers\<close>

text \<open>
  The handlers pass around \<open>Dict[str, Any]\<close> payloads.  A payload is modelled as a JSON
  value; a dictionary is an association list read with \<open>map_of\<close>, so the first pair of a
  key is the one that counts, and \<open>d[k] = v\<close> is \<open>AList.update\<close>.  A float is a real
  number: rounding is not modelled.
\<close>

datatype json =
    JNull
  | JBool bool
  | JInt int
  | JFloat real
  | JStr string
  | JList "json list"
  | JDict "(string \<times> json) list"

type_synonym pydict = "(string \<times> json) list"

text \<open>\<open>d.get(k)\<close> and \<open>d.get(k, default)\<close>.\<close>

definition dict_get :: "pydict \<Rightarrow> string \<Rightarrow> json" where
  "dict_get d k = (case map_of d k of None \<Rightarrow> JNull | Some v \<Rightarrow> v)"

definition dict_get_default :: "pydict \<Rightarrow> string \<Rightarrow> json \<Rightarrow> json" where
  "dict_get_default d k dflt = (case map_of d k of None \<Rightarrow> dflt | Some v \<Rightarrow> v)"

text \<open>Python's truth value of an object, and \<open>x or y\<close>.\<close>

fun truthy :: "json \<Rightarrow> bool" where
  "truthy JNull = False"
| "truthy (JBool b) = b"
| "truthy (JInt n) = (n \<noteq> 0)"
| "truthy (JFloat r) = (r \<noteq> 0)"
| "truthy (JStr s) = (s \<noteq> [])"
| "truthy (JList xs) = (xs \<noteq> [])"
| "truthy (JDict d) = (d \<noteq> [])"

definition py_or :: "json \<Rightarrow> json \<Rightarrow> json" where
  "py_or x y = (if truthy x then x else y)"

text \<open>
  Python's \<open>==\<close>: booleans, integers and floats are compared as numbers; every other
  pair of values is compared by structure (numbers nested in lists and dictionaries
  included, which is finer than Python there).
\<close>

fun py_number :: "json \<Rightarrow> real option" where
  "py_number (JBool b) = Some (if b then 1 else 0)"
| "py_number (JInt n) = Some (of_int n)"
| "py_number (JFloat r) = Some r"
| "py_number _ = None"

definition py_eq :: "json \<Rightarrow> json \<Rightarrow> bool" where
  "py_eq a b =
     (case (py_number a, py_number b) of
        (Some x, Some y) \<Rightarrow> x = y
      | _ \<Rightarrow> a = b)"

text \<open>The name Python prints for the type of a value, and \<open>repr\<close> of a dictionary key.\<close>

fun type_name :: "json \<Rightarrow> string" where
  "type_name JNull = ''NoneType''"
| "type_name (JBool b) = ''bool''"
| "type_name (JInt n) = ''int''"
| "type_name (JFloat r) = ''float''"
| "type_name (JStr s) = ''str''"
| "type_name (JList xs) = ''list''"
| "type_name (JDict d) = ''dict''"

definition quoted :: "string \<Rightarrow> string" where
  "quoted s = [CHR 0x27] @ s @ [CHR 0x27]"

text \<open>
  What a handler raises.  \<open>HTTPException\<close> is FastAPI's exception with its status code
  and detail; \<open>Exception msg\<close> stands for any other exception derived from Python's
  \<open>Exception\<close> class, with \<open>str(exc) = msg\<close>.
\<close>

datatype exn =
    HTTPException int string
  | Exception string

text \<open>
  What a handler hands back: the value it returns (FastAPI sends it with status 200), a
  \<open>JSONResponse\<close> with its own status code, or a \<open>FileResponse\<close> for a path.
\<close>

datatype response =
    Returned (body: json)
  | JSONResponse (status_code: json) (content: json)
  | FileResponse (file_path: "string list") (media_type: string) (file_name: string)

section \<open>Blog writer status endpoints (api/blog\_writer/router.py)\<close>

text \<open>
  \<open>task_manager.get_task_status\<close> belongs to a module that is not among the sources.
  The handlers only call it, so it is a parameter \<open>get_task_status\<close> of each handler:
  it answers \<open>None\<close> for a task it does not know and the task's status dictionary
  otherwise.  \<open>str_of\<close> stands for Python's \<open>str()\<close> on a payload value.
\<close>

definition is_subscription_failure :: "pydict \<Rightarrow> bool" where
  "is_subscription_failure status =
     (py_eq (dict_get status ''status'') (JStr ''failed'')
      \<and> (py_eq (dict_get status ''error_status'') (JInt 429)
           \<or> py_eq (dict_get status ''error_status'') (JInt 402)))"

text \<open>
  The loop \<open>for key in [...]: if key in error_data: usage_info[key] = error_data[key]\<close>.
\<close>

fun copy_known_fields :: "string list \<Rightarrow> pydict \<Rightarrow> pydict \<Rightarrow> pydict" where
  "copy_known_fields [] error_data usage_info = usage_info"
| "copy_known_fields (key # keys) error_data usage_info =
     copy_known_fields keys error_data
       (case map_of error_data key of
          Some v \<Rightarrow> AList.update key v usage_info
        | None \<Rightarrow> usage_info)"

definition known_usage_fields :: "string list" where
  "known_usage_fields = [''current_tokens'', ''requested_tokens'', ''limit'', ''current_calls'']"

text \<open>
  The error data the handlers work with: \<open>status.get('error_data', {}) or {}\<close>, replaced
  by \<open>{'error': str(error_data)}\<close> when it is not a dictionary.
\<close>

definition error_data_of :: "(json \<Rightarrow> string) \<Rightarrow> pydict \<Rightarrow> pydict" where
  "error_data_of str_of status =
     (case py_or (dict_get_default status ''error_data'' (JDict [])) (JDict []) of
        JDict d \<Rightarrow> d
      | other \<Rightarrow> [(''error'', JStr (str_of other))])"

definition usage_info_of :: "pydict \<Rightarrow> pydict \<Rightarrow> json" where
  "usage_info_of status error_data =
     (let stored_error_message = dict_get_default status ''error'' (dict_get error_data ''error'');
          provider = dict_get_default error_data ''provider'' (JStr ''unknown'');
          usage_info = dict_get error_data ''usage_info''
      in if \<not> truthy usage_info then
           JDict (copy_known_fields known_usage_fields error_data
                    [(''provider'', provider),
                     (''message'', stored_error_message),
                     (''error_type'', dict_get_default error_data ''error_type'' (JStr ''unknown''))])
         else usage_info)"

text \<open>
  The block that the research, content and medium status handlers share word for word
  (they differ in the text they log): the response for a task that failed on a
  subscription limit.
\<close>

definition subscription_error_response :: "(json \<Rightarrow> string) \<Rightarrow> pydict \<Rightarrow> response" where
  "subscription_error_response str_of status =
     (let error_data = error_data_of str_of status;
          error_status = dict_get_default status ''error_status'' (JInt 429);
          stored_error_message = dict_get_default status ''error'' (dict_get error_data ''error'');
          provider = dict_get_default error_data ''provider'' (JStr ''unknown'');
          usage_info = usage_info_of status error_data;
          error_msg = dict_get_default error_data ''message''
                        (py_or stored_error_message (JStr ''Subscription limit exceeded''))
      in JSONResponse error_status
           (JDict [(''error'', dict_get_default error_data ''error''
                                 (py_or stored_error_message (JStr ''Subscription limit exceeded''))),
                   (''message'', error_msg),
                   (''provider'', provider),
                   (''usage_info'', usage_info)]))"

text \<open>
  \<open>get_research_status\<close>.  After the subscription branch the handler logs
  \<open>status['status']\<close> and \<open>len(status.get('progress_messages', []))\<close>; a missing key or a
  value without length raises inside the \<open>try\<close>, and the last \<open>except\<close> clause turns
  that into a 500 whose detail is the exception's text.
\<close>

definition get_research_status ::
  "(json \<Rightarrow> string) \<Rightarrow> (string \<Rightarrow> pydict option) \<Rightarrow> string \<Rightarrow> exn + response" where
  "get_research_status str_of get_task_status task_id =
     (case get_task_status task_id of
        None \<Rightarrow> Inl (HTTPException 404 ''Task not found'')
      | Some status \<Rightarrow>
          if is_subscription_failure status then Inr (subscription_error_response str_of status)
          else if map_of status ''status'' = None then
            Inl (HTTPException 500 (quoted ''status''))
          else
            (case dict_get_default status ''progress_messages'' (JList []) of
               JStr s \<Rightarrow> Inr (Returned (JDict status))
             | JList xs \<Rightarrow> Inr (Returned (JDict status))
             | JDict d \<Rightarrow> Inr (Returned (JDict status))
             | other \<Rightarrow>
                 Inl (HTTPException 500
                        (''object of type '' @ quoted (type_name other) @ '' has no len()''))))"

definition get_outline_status ::
  "(string \<Rightarrow> pydict option) \<Rightarrow> string \<Rightarrow> exn + response" where
  "get_outline_status get_task_status task_id =
     (case get_task_status task_id of
        None \<Rightarrow> Inl (HTTPException 404 ''Task not found'')
      | Some status \<Rightarrow> Inr (Returned (JDict status)))"

text \<open>
  \<open>content_generation_status\<close> and \<open>medium_generation_status\<close>.  Between the 404 check
  and the subscription branch both record a completed blog in the asset library.  That
  block only reads \<open>status\<close>, writes to the database session, and sits in a \<open>try\<close> whose
  \<open>except Exception\<close> clause logs and goes on, so the response does not depend on it;
  the model gives the response.
\<close>

definition content_generation_status ::
  "(json \<Rightarrow> string) \<Rightarrow> (string \<Rightarrow> pydict option) \<Rightarrow> string \<Rightarrow> exn + response" where
  "content_generation_status str_of get_task_status task_id =
     (case get_task_status task_id of
        None \<Rightarrow> Inl (HTTPException 404 ''Task not found'')
      | Some status \<Rightarrow>
          if is_subscription_failure status then Inr (subscription_error_response str_of status)
          else Inr (Returned (JDict status)))"

definition medium_generation_status ::
  "(json \<Rightarrow> string) \<Rightarrow> (string \<Rightarrow> pydict option) \<Rightarrow> string \<Rightarrow> exn + response" where
  "medium_generation_status str_of get_task_status task_id =
     (case get_task_status task_id of
        None \<Rightarrow> Inl (HTTPException 404 ''Task not found'')
      | Some status \<Rightarrow>
          if is_subscription_failure status then Inr (subscription_error_response str_of status)
          else Inr (Returned (JDict status)))"

definition rewrite_status ::
  "(string \<Rightarrow> pydict option) \<Rightarrow> string \<Rightarrow> exn + response" where
  "rewrite_status get_task_status task_id =
     (case get_task_status task_id of
        None \<Rightarrow> Inl (HTTPException 404 ''Task not found'')
      | Some status \<Rightarrow> Inr (Returned (JDict status)))"

text \<open>
  The task of the specification's quota example: a failed task with
  \<open>error_status = 429\<close> and
  \<open>error_data = {provider: "gemini", current_tokens: 100, limit: 50}\<close>, in a registry that
  also holds a task still being processed.
\<close>

definition example_error_data :: pydict where
  "example_error_data =
     [(''provider'', JStr ''gemini''), (''current_tokens'', JInt 100), (''limit'', JInt 50)]"

definition example_failed_task :: pydict where
  "example_failed_task =
     [(''status'', JStr ''failed''),
      (''error'', JStr ''Token limit exceeded''),
      (''error_status'', JInt 429),
      (''error_data'', JDict example_error_data)]"

definition example_registry :: "string \<Rightarrow> pydict option" where
  "example_registry task_id =
     (if task_id = ''task-1'' then Some example_failed_task
      else if task_id = ''task-2'' then Some [(''status'', JStr ''processing''), (''progress'', JInt 40)]
      else None)"

definition example_str_of :: "json \<Rightarrow> string" where
  "example_str_of j = (case j of JStr s \<Rightarrow> s | _ \<Rightarrow> ''<object>'')"

section \<open>Task registry used by the story writer\<close>

text \<open>
  Modelled from the spec: the task registry of the story writer.  Its module
  (api/story\_writer/task\_manager.py) is not among the sources; the routes only call
  \<open>create_task\<close> and \<open>update_task_status\<close>.  The registry follows the specification's
  data model (section 3) and contract (section 4.2): a map from task id to task, with
  status, progress, latest message, the list of all messages, result and error.
\<close>

datatype task_state = Pending | Processing | Completed | Failed

record task =
  task_type :: string
  task_status :: task_state
  task_progress :: real
  task_message :: "string option"
  task_progress_messages :: "string list"
  task_result :: "json option"
  task_error :: "string option"

type_synonym task_registry = "string \<rightharpoonup> task"


text \<open>
  Modelled from the spec: \<open>create(task_type) -> task_id\<close> "allocates a new Task in
  pending state, returns its identifier".  The identifier scheme is the implementer's
  choice, so the new id is an argument.
\<close>

definition create_task :: "string \<Rightarrow> string \<Rightarrow> task_registry \<Rightarrow> string \<times> task_registry" where
  "create_task new_id ttype reg =
     (new_id,
      reg(new_id \<mapsto> \<lparr>task_type = ttype, task_status = Pending, task_progress = 0,
                      task_message = None, task_progress_messages = [],
                      task_result = None, task_error = None\<rparr>))"



section \<open>Story video generation (api/story\_writer/routes/video\_generation.py)\<close>

subsection \<open>Authentication helper (api/story\_writer/utils/auth.py)\<close>

text \<open>\<open>str.strip()\<close>, on the ASCII characters that Python counts as white space.\<close>

definition is_space :: "char \<Rightarrow> bool" where
  "is_space c =
     (c \<in> set [CHR 0x09, CHR 0x0A, CHR 0x0B, CHR 0x0C, CHR 0x0D,
               CHR 0x1C, CHR 0x1D, CHR 0x1E, CHR 0x1F, CHR 0x20])"

definition strip :: "string \<Rightarrow> string" where
  "strip s = rev (dropWhile is_space (rev (dropWhile is_space s)))"

definition require_authenticated_user :: "(json \<Rightarrow> string) \<Rightarrow> pydict option \<Rightarrow> exn + string" where
  "require_authenticated_user str_of current_user =
     (case current_user of
        None \<Rightarrow> Inl (HTTPException 401 ''Authentication required'')
      | Some cu \<Rightarrow>
          if cu = [] then Inl (HTTPException 401 ''Authentication required'')
          else
            let user_id = strip (str_of (dict_get_default cu ''id'' (JStr '''')))
            in if user_id = [] then
                 Inl (HTTPException 401 ''Invalid user ID in authentication token'')
               else Inr user_id)"

subsection \<open>Requests, collaborators and application state\<close>

text \<open>
  The fields of \<open>StoryVideoGenerationRequest\<close> that the asynchronous route reads.
\<close>

record story_video_request =
  scenes :: "json list"
  image_urls :: "string list"
  audio_urls :: "string list"
  story_title :: "string option"
  fps :: "int option"
  transition_duration :: "real option"



text \<open>
  The task registry together with the calls that \<open>background_tasks.add_task\<close> has
  queued.
\<close>

datatype background_call =
    VideoGenerationTask string story_video_request string
  | CompleteVideoGeneration string pydict string

record app_state =
  registry :: task_registry
  background_tasks :: "background_call list"

subsection \<open>Starting a task\<close>


definition generate_complete_story_video ::
  "(json \<Rightarrow> string) \<Rightarrow> string \<Rightarrow> pydict \<Rightarrow> pydict option \<Rightarrow> app_state
     \<Rightarrow> (exn + response) \<times> app_state" where
  "generate_complete_story_video str_of new_id request_data current_user st =
     (case require_authenticated_user str_of current_user of
        Inl e \<Rightarrow> (Inl e, st)
      | Inr user_id \<Rightarrow>
          let (task_id, reg') = create_task new_id ''complete_video_generation'' (registry st)
          in (Inr (Returned (JDict [(''task_id'', JStr task_id),
                                    (''status'', JStr ''pending''),
                                    (''message'', JStr ''Complete video generation started'')])),
              st\<lparr>registry := reg',
                 background_tasks :=
                   background_tasks st @ [CompleteVideoGeneration task_id request_data user_id]\<rparr>))"

subsection \<open>Statements of a \<open>try\<close> body\<close>







subsection \<open>The background task of the asynchronous route\<close>






subsection \<open>The complete video workflow\<close>














subsection \<open>States of a task in the registry\<close>




subsection \<open>Example collaborators and requests\<close>




definition example_user :: "pydict option" where
  "example_user = Some [(''id'', JStr ''user-1'')]"


section \<open>Image studio (api/images.py)\<close>

subsection \<open>Image generation\<close>

record image_generate_request =
  prompt :: string
  negative_prompt :: "string option"
  req_provider :: "string option"
  req_model :: "string option"
  req_width :: "int option"
  req_height :: "int option"
  guidance_scale :: "real option"
  steps :: "int option"
  req_seed :: "int option"

text \<open>What \<open>generate_image\<close> returns, and the handler's \<open>ImageGenerateResponse\<close>.\<close>

record image_generation_result =
  image_bytes :: string
  result_width :: int
  result_height :: int
  result_provider :: string
  result_model :: "string option"
  result_seed :: "int option"

record image_generate_response =
  success :: bool
  image_base64 :: string
  image_url :: "string option"
  response_width :: int
  response_height :: int
  response_provider :: string
  response_model :: "string option"
  response_seed :: "int option"

text \<open>The records that the handler writes with \<open>logger.warning\<close> and \<open>logger.error\<close>.\<close>

datatype log_record = Warning string | Error string

text \<open>
  What the handler reaches outside itself.  A call answers \<open>Inl\<close> with the text of the
  exception it raises or \<open>Inr\<close> with its result.
  \<^item> \<open>generate_image attempt req user_id\<close> is the call of the image facade in the given
    pass of the retry loop.
  \<^item> \<open>b64encode\<close> is \<open>base64.b64encode(...).decode("utf-8")\<close>.
  \<^item> \<open>save_image_file\<close> stands for the calls of \<open>sanitize_filename\<close>,
    \<open>generate_unique_filename\<close> and \<open>save_file_safely\<close> (utils/file\_storage.py is not
    among the sources): it raises, or returns the name of \<open>image_path\<close> (\<open>None\<close> when no
    path came back) and \<open>save_error\<close>.
  \<^item> \<open>save_asset_to_library\<close> records the file for the user under its name and URL and
    returns the asset id.
  \<^item> \<open>usage_tracking_log\<close> stands for the usage tracking block.  The block writes to its
    own database session inside a \<open>try\<close> whose \<open>except Exception\<close> clause logs and goes
    on, so all that reaches the handler is what it logged.
\<close>

record image_env =
  generate_image :: "nat \<Rightarrow> image_generate_request \<Rightarrow> string \<Rightarrow> string + image_generation_result"
  b64encode :: "string \<Rightarrow> string"
  save_image_file ::
    "image_generate_request \<Rightarrow> image_generation_result \<Rightarrow> string + (string option \<times> string option)"
  save_asset_to_library ::
    "string \<Rightarrow> string \<Rightarrow> string \<Rightarrow> image_generate_request \<Rightarrow> image_generation_result
       \<Rightarrow> string + int option"
  usage_tracking_log :: "string \<Rightarrow> image_generation_result \<Rightarrow> log_record list"

text \<open>
  The block "Save image to disk and track in asset library" (lines 96 to 161): it
  yields \<open>image_url\<close> and the records it logged.  Both \<open>try\<close> statements of the block
  end in \<open>except Exception\<close> clauses that only log.
\<close>

definition save_and_track ::
  "image_env \<Rightarrow> string \<Rightarrow> image_generate_request \<Rightarrow> image_generation_result
     \<Rightarrow> string option \<times> log_record list" where
  "save_and_track env user_id req result =
     (case save_image_file env req result of
        Inl save_error \<Rightarrow>
          (None, [Error (''[images.generate] Unexpected error saving image: '' @ save_error)])
      | Inr (image_path, save_error) \<Rightarrow>
          (case image_path of
             Some name \<Rightarrow>
               if save_error = None \<or> save_error = Some [] then
                 (let image_url = ''/api/images/image-studio/images/'' @ name
                  in case save_asset_to_library env user_id name image_url req result of
                       Inl asset_error \<Rightarrow>
                         (Some image_url,
                          [Error (''[images.generate] Failed to save asset to library: ''
                                  @ asset_error)])
                     | Inr asset_id \<Rightarrow>
                         if asset_id \<noteq> None \<and> asset_id \<noteq> Some 0 then (Some image_url, [])
                         else
                           (Some image_url,
                            [Warning (''[images.generate] Asset tracking returned None ''
                                      @ ''(may have failed silently)'')]))
               else
                 (None,
                  [Warning (''[images.generate] Failed to save image to disk: ''
                            @ (case save_error of None \<Rightarrow> ''None'' | Some e \<Rightarrow> e))])
           | None \<Rightarrow>
               (None,
                [Warning (''[images.generate] Failed to save image to disk: ''
                          @ (case save_error of None \<Rightarrow> ''None'' | Some e \<Rightarrow> e))])))"

text \<open>
  The rest of a pass of the loop after \<open>generate_image\<close> has returned: encode, save and
  track, track usage, build the response.
\<close>

definition respond_with_image ::
  "image_env \<Rightarrow> string \<Rightarrow> image_generate_request \<Rightarrow> image_generation_result
     \<Rightarrow> image_generate_response \<times> log_record list" where
  "respond_with_image env user_id req result =
     (let image_b64 = b64encode env (image_bytes result);
          saved = save_and_track env user_id req result
      in (\<lparr>success = True,
           image_base64 = image_b64,
           image_url = fst saved,
           response_width = result_width result,
           response_height = result_height result,
           response_provider = result_provider result,
           response_model = result_model result,
           response_seed = result_seed result\<rparr>,
          snd saved @ usage_tracking_log env user_id result))"

definition service_unavailable :: exn where
  "service_unavailable =
     HTTPException 500
       (''Image generation service is temporarily unavailable or the connection was reset. ''
        @ ''Please try again.'')"

text \<open>
  \<open>generate\<close>.  The outer \<open>try\<close> has a single clause \<open>except Exception\<close>, so the two
  401 exceptions of the authentication check end as the 500 of that clause too.  The
  loop makes at most two passes; the second one runs when the first failed and a provider
  was named, with the provider cleared.
\<close>

definition generate ::
  "image_env \<Rightarrow> (json \<Rightarrow> string) \<Rightarrow> image_generate_request \<Rightarrow> pydict option
     \<Rightarrow> (exn + image_generate_response) \<times> log_record list" where
  "generate env str_of req current_user =
     (case current_user of
        None \<Rightarrow>
          (Inl service_unavailable,
           [Error ''Image generation failed: 401: Authentication required''])
      | Some cu \<Rightarrow>
          if cu = [] then
            (Inl service_unavailable,
             [Error ''Image generation failed: 401: Authentication required''])
          else
            let user_id = str_of (dict_get_default cu ''id'' (JStr ''''))
            in if user_id = [] then
                 (Inl service_unavailable,
                  [Error ''Image generation failed: 401: Invalid user ID in authentication token''])
               else
                 (case generate_image env 0 req user_id of
                    Inr result \<Rightarrow>
                      (case respond_with_image env user_id req result of
                         (response, records) \<Rightarrow> (Inr response, records))
                  | Inl inner \<Rightarrow>
                      if req_provider req \<noteq> None \<and> req_provider req \<noteq> Some [] then
                        (case generate_image env 1 (req\<lparr>req_provider := None\<rparr>) user_id of
                           Inr result \<Rightarrow>
                             (case respond_with_image env user_id (req\<lparr>req_provider := None\<rparr>)
                                     result of
                                (response, records) \<Rightarrow>
                                  (Inr response,
                                   Error (''Image generation attempt 1 failed: '' @ inner) # records))
                         | Inl inner2 \<Rightarrow>
                             (Inl service_unavailable,
                              [Error (''Image generation attempt 1 failed: '' @ inner),
                               Error (''Image generation attempt 2 failed: '' @ inner2),
                               Error (''Image generation failed: '' @ inner2)]))
                      else
                        (Inl service_unavailable,
                         [Error (''Image generation attempt 1 failed: '' @ inner),
                          Error (''Image generation failed: '' @ inner)])))"

text \<open>
  The pass of the retry loop in which \<open>generate_image\<close> returns, if there is one: the
  request as that pass sees it, and the result.
\<close>

definition successful_pass ::
  "image_env \<Rightarrow> image_generate_request \<Rightarrow> string
     \<Rightarrow> (image_generate_request \<times> image_generation_result) option" where
  "successful_pass env req user_id =
     (case generate_image env 0 req user_id of
        Inr result \<Rightarrow> Some (req, result)
      | Inl inner \<Rightarrow>
          if req_provider req \<noteq> None \<and> req_provider req \<noteq> Some [] then
            (case generate_image env 1 (req\<lparr>req_provider := None\<rparr>) user_id of
               Inr result \<Rightarrow> Some (req\<lparr>req_provider := None\<rparr>, result)
             | Inl inner2 \<Rightarrow> None)
          else None)"

subsection \<open>Serving an image\<close>

text \<open>
  A path is the list of its components below the root \<open>/\<close>.  \<open>path_parts\<close> is how
  \<open>pathlib\<close> reads a string: split at \<open>/\<close>, empty and \<open>.\<close> components dropped.
  \<open>joinpath base s\<close> is \<open>base / s\<close>: a string that starts with \<open>/\<close> replaces the base.
  \<open>normalise\<close> is \<open>resolve()\<close> on an absolute path in a file system without symbolic
  links: each \<open>..\<close> removes the component before it, and stays at the root when there
  is none.
\<close>

fun split_on :: "char \<Rightarrow> string \<Rightarrow> string list" where
  "split_on sep [] = [[]]"
| "split_on sep (c # cs) =
     (if c = sep then [] # split_on sep cs
      else (case split_on sep cs of
              [] \<Rightarrow> [[c]]
            | p # ps \<Rightarrow> (c # p) # ps))"

definition path_parts :: "string \<Rightarrow> string list" where
  "path_parts s = filter (\<lambda>p. p \<noteq> [] \<and> p \<noteq> ''.'') (split_on CHR ''/'' s)"

definition joinpath :: "string list \<Rightarrow> string \<Rightarrow> string list" where
  "joinpath base s = (if take 1 s = ''/'' then path_parts s else base @ path_parts s)"

fun normalise_onto :: "string list \<Rightarrow> string list \<Rightarrow> string list" where
  "normalise_onto acc [] = acc"
| "normalise_onto acc (p # ps) =
     (if p = ''..'' then normalise_onto (butlast acc) ps else normalise_onto (acc @ [p]) ps)"

definition normalise :: "string list \<Rightarrow> string list" where
  "normalise ps = normalise_onto [] ps"

text \<open>\<open>path.relative_to(base)\<close> succeeds when the components of \<open>base\<close> begin \<open>path\<close>.\<close>

definition is_relative_to :: "string list \<Rightarrow> string list \<Rightarrow> bool" where
  "is_relative_to path base = (take (length base) path = base)"

text \<open>
  The file system of the handler: \<open>base_dir\<close> is \<open>Path(__file__).parent.parent\<close>, and
  \<open>path_status p\<close> is \<open>p.exists()\<close>, which answers or raises \<open>OSError\<close> (\<open>Inl\<close> with its
  text).
\<close>

record file_env =
  base_dir :: "string list"
  path_status :: "string list \<Rightarrow> string + bool"

definition image_studio_dir :: "file_env \<Rightarrow> string list" where
  "image_studio_dir env = normalise (joinpath (base_dir env) ''image_studio_images'')"

text \<open>
  The two paths of the handler: \<open>image_path\<close>, the resolved path of the file asked for,
  and \<open>base_subdir\<close>, the directory it is served from.
\<close>

definition image_path_for :: "file_env \<Rightarrow> string \<Rightarrow> string list" where
  "image_path_for env image_filename =
     (if take 7 image_filename = ''edited/'' then
        normalise (joinpath (joinpath (image_studio_dir env) ''edited'') (drop 7 image_filename))
      else normalise (joinpath (image_studio_dir env) image_filename))"

definition base_subdir_for :: "file_env \<Rightarrow> string \<Rightarrow> string list" where
  "base_subdir_for env image_filename =
     (if take 7 image_filename = ''edited/'' then
        normalise (joinpath (image_studio_dir env) ''edited'')
      else image_studio_dir env)"

text \<open>
  \<open>serve_image_studio_image\<close>.  \<open>resolve()\<close> raises \<open>ValueError\<close> on a name with a NUL
  character; that and an \<open>OSError\<close> of \<open>exists()\<close> reach the last \<open>except\<close> clause and
  become a 500.
\<close>

definition serve_image_studio_image ::
  "file_env \<Rightarrow> string \<Rightarrow> pydict option \<Rightarrow> exn + response" where
  "serve_image_studio_image env image_filename current_user =
     (if current_user = None \<or> current_user = Some [] then
        Inl (HTTPException 401 ''Authentication required'')
      else if CHR 0x00 \<in> set image_filename then
        Inl (HTTPException 500 ''embedded null byte'')
      else
        let image_path = image_path_for env image_filename;
            base_subdir = base_subdir_for env image_filename
        in if \<not> is_relative_to image_path base_subdir then
             Inl (HTTPException 403 ''Access denied: Invalid image path'')
           else
             (case path_status env image_path of
                Inl os_error \<Rightarrow> Inl (HTTPException 500 os_error)
              | Inr False \<Rightarrow> Inl (HTTPException 404 ''Image not found'')
              | Inr True \<Rightarrow>
                  Inr (FileResponse image_path ''image/png''
                         (if image_path = [] then [] else last image_path))))"

text \<open>Examples: a provider that works while saving fails, and a small file system.\<close>

definition example_image_result :: image_generation_result where
  "example_image_result =
     \<lparr>image_bytes = ''PNG'', result_width = 1024, result_height = 1024,
      result_provider = ''gemini'', result_model = None, result_seed = None\<rparr>"

definition example_image_request :: image_generate_request where
  "example_image_request =
     \<lparr>prompt = ''a red fox'', negative_prompt = None, req_provider = None, req_model = None,
      req_width = Some 1024, req_height = Some 1024, guidance_scale = None, steps = None,
      req_seed = None\<rparr>"

definition example_image_env :: image_env where
  "example_image_env =
     \<lparr>generate_image = (\<lambda>attempt req user_id. Inr example_image_result),
      b64encode = (\<lambda>bytes. ''UE5H''),
      save_image_file = (\<lambda>req result. Inl ''disk full''),
      save_asset_to_library = (\<lambda>user_id name url req result. Inl ''database is locked''),
      usage_tracking_log = (\<lambda>user_id result. [])\<rparr>"

definition example_file_env :: file_env where
  "example_file_env =
     \<lparr>base_dir = [''app'', ''backend''],
      path_status = (\<lambda>p. Inr (p = [''app'', ''backend'', ''image_studio_images'', ''fox.png'']
                             \<or> p = [''app'', ''backend'', ''secret.env'']))\<rparr>"


section \<open>Properties of the dashboard cache\<close>

lemma lower_upper_char: "lower_char d = d \<Longrightarrow> lower_char (upper_char d) = d"
  unfolding lower_char_def upper_char_def
  by (simp split: if_splits)

lemma same_ignoring_case_lower:
  "same_ignoring_case v w \<Longrightarrow> lower w = w \<Longrightarrow> lower v = w"
proof (induction v w rule: same_ignoring_case.induct)
  case 1
  then show ?case by (simp add: lower_def)
next
  case (2 c cs d ds)
  then show ?case by (auto simp: lower_def lower_upper_char)
qed simp_all

lemma flag_words_lower:
  "w \<in> set [''1'', ''true'', ''yes'', ''on''] \<Longrightarrow> lower w = w"
  by (auto simp: lower_def lower_char_def)

lemma nocache_unset: "environ w ''SUBSCRIPTION_DASHBOARD_NOCACHE'' = None \<Longrightarrow> \<not> nocache w"
  by (simp add: nocache_def getenv_def lower_def lower_char_def)

text \<open>Calls that are neither a set nor a clear for \<open>u\<close> leave the entry of \<open>u\<close> as it is.\<close>

lemma run_calls_keeps:
  "no_set_or_clear u cs \<Longrightarrow>
   dashboard_cache (run_calls cs st) u = dashboard_cache st u \<and>
   dashboard_cache_ts (run_calls cs st) u = dashboard_cache_ts st u"
proof (induction cs arbitrary: st)
  case Nil
  then show ?case by simp
next
  case (Cons c cs)
  obtain w k where c: "c = (w, k)" by (cases c)
  from Cons.prems have nk: "\<not> sets_or_clears u k" and rest: "no_set_or_clear u cs"
    by (simp_all add: c)
  have step: "dashboard_cache (do_call c st) u = dashboard_cache st u \<and>
     dashboard_cache_ts (do_call c st) u = dashboard_cache_ts st u"
  proof (cases k)
    case (CallGet u')
    then show ?thesis by (simp add: c get_cached_dashboard_def Let_def)
  next
    case (CallSet u' x)
    then show ?thesis using nk by (simp add: c set_cached_dashboard_def)
  next
    case (CallClear uo)
    then show ?thesis using nk
      by (cases uo) (auto simp: c clear_dashboard_cache_def)
  qed
  show ?case using Cons.IH[OF rest, of "do_call c st"] step by simp
qed

text \<open>
  C2.  After \<open>set_cached_dashboard(u, v)\<close> at time \<open>t\<close>, and any calls in between that
  are neither a set nor a clear for \<open>u\<close>, a \<open>get_cached_dashboard(u)\<close> at time \<open>t'\<close> with
  the bypass flag unset returns \<open>v\<close> when \<open>t' - t < 600\<close> and \<open>None\<close> when
  \<open>t' - t \<ge> 600\<close>, although nothing evicted the entry.
\<close>

theorem dashboard_cache_ttl:
  assumes "no_set_or_clear u cs" and "\<not> nocache w'"
  shows "(time_now w' - time_now w < 600 \<longrightarrow>
            fst (get_cached_dashboard w' u (run_calls cs (set_cached_dashboard w u v st))) = Some v)
       \<and> (time_now w' - time_now w \<ge> 600 \<longrightarrow>
            fst (get_cached_dashboard w' u (run_calls cs (set_cached_dashboard w u v st))) = None)"
  using run_calls_keeps[OF assms(1), of "set_cached_dashboard w u v st"] assms(2)
  by (simp add: get_cached_dashboard_def set_cached_dashboard_def DASHBOARD_CACHE_TTL_SEC_def Let_def)

theorem dashboard_cache_ttl_witness:
  "fst (get_cached_dashboard \<lparr>environ = Map.empty, time_now = 599\<rparr> ''u1''
         (run_calls [(\<lparr>environ = Map.empty, time_now = 10\<rparr>, CallSet ''u2'' (7::nat)),
                     (\<lparr>environ = Map.empty, time_now = 20\<rparr>, CallClear (Some ''u2''))]
            (set_cached_dashboard \<lparr>environ = Map.empty, time_now = 0\<rparr> ''u1'' 5 empty_store)))
     = Some 5
   \<and> fst (get_cached_dashboard \<lparr>environ = Map.empty, time_now = 600\<rparr> ''u1''
         (run_calls [(\<lparr>environ = Map.empty, time_now = 10\<rparr>, CallSet ''u2'' (7::nat)),
                     (\<lparr>environ = Map.empty, time_now = 20\<rparr>, CallClear (Some ''u2''))]
            (set_cached_dashboard \<lparr>environ = Map.empty, time_now = 0\<rparr> ''u1'' 5 empty_store)))
     = None"
proof -
  let ?cs = "[(\<lparr>environ = Map.empty, time_now = 10\<rparr>, CallSet ''u2'' (7::nat)),
              (\<lparr>environ = Map.empty, time_now = 20\<rparr>, CallClear (Some ''u2''))]"
  let ?w0 = "\<lparr>environ = Map.empty, time_now = 0\<rparr>"
  have h1: "no_set_or_clear ''u1'' ?cs" by simp
  have h2: "\<not> nocache \<lparr>environ = Map.empty, time_now = 599\<rparr>"
    by (simp add: nocache_unset)
  have h3: "\<not> nocache \<lparr>environ = Map.empty, time_now = 600\<rparr>"
    by (simp add: nocache_unset)
  show ?thesis
    using dashboard_cache_ttl[OF h1 h2, of ?w0 5 empty_store]
          dashboard_cache_ttl[OF h1 h3, of ?w0 5 empty_store]
    by simp
qed

text \<open>
  C3, as the claim states it, fails: a read of an expired entry does not remove it.
  Here user \<open>u1\<close> was cached at time 0 and is read at time 1000, past the TTL of 600;
  after the read both dictionaries still hold the entry.
\<close>

theorem expired_read_keeps_entry:
  "fst (get_cached_dashboard \<lparr>environ = Map.empty, time_now = 1000\<rparr> ''u1''
          (set_cached_dashboard \<lparr>environ = Map.empty, time_now = 0\<rparr> ''u1'' (5::nat) empty_store))
     = None
   \<and> dashboard_cache
       (snd (get_cached_dashboard \<lparr>environ = Map.empty, time_now = 1000\<rparr> ''u1''
          (set_cached_dashboard \<lparr>environ = Map.empty, time_now = 0\<rparr> ''u1'' (5::nat) empty_store)))
       ''u1'' = Some 5
   \<and> dashboard_cache_ts
       (snd (get_cached_dashboard \<lparr>environ = Map.empty, time_now = 1000\<rparr> ''u1''
          (set_cached_dashboard \<lparr>environ = Map.empty, time_now = 0\<rparr> ''u1'' (5::nat) empty_store)))
       ''u1'' = Some 0"
  by (simp add: get_cached_dashboard_def set_cached_dashboard_def empty_store_def
      DASHBOARD_CACHE_TTL_SEC_def nocache_unset Let_def)

text \<open>
  C3, amended.  A read of an expired entry (\<open>now - created_at \<ge> TTL\<close>) behaves as a
  miss and leaves the store exactly as it was: the stale entry stays in both
  dictionaries until a later set overwrites it or a clear removes it.
\<close>

theorem expired_read_is_miss_without_eviction:
  assumes "dashboard_cache st u = Some v" and "dashboard_cache_ts st u = Some created_at"
      and "time_now w - created_at \<ge> DASHBOARD_CACHE_TTL_SEC"
  shows "get_cached_dashboard w u st = (None, st)"
  using assms by (simp add: get_cached_dashboard_def Let_def)

theorem expired_read_is_miss_without_eviction_witness:
  "get_cached_dashboard \<lparr>environ = Map.empty, time_now = 600\<rparr> ''u1''
     \<lparr>dashboard_cache = [''u1'' \<mapsto> (5::nat)], dashboard_cache_ts = [''u1'' \<mapsto> 0]\<rparr>
   = (None, \<lparr>dashboard_cache = [''u1'' \<mapsto> (5::nat)], dashboard_cache_ts = [''u1'' \<mapsto> 0]\<rparr>)"
proof -
  let ?st = "\<lparr>dashboard_cache = [''u1'' \<mapsto> (5::nat)], dashboard_cache_ts = [''u1'' \<mapsto> (0::real)]\<rparr>"
  let ?w = "\<lparr>environ = Map.empty, time_now = 600\<rparr>"
  have h1: "dashboard_cache ?st ''u1'' = Some 5" by simp
  have h2: "dashboard_cache_ts ?st ''u1'' = Some 0" by simp
  have h3: "time_now ?w - 0 \<ge> DASHBOARD_CACHE_TTL_SEC"
    by (simp add: DASHBOARD_CACHE_TTL_SEC_def)
  show ?thesis using expired_read_is_miss_without_eviction[OF h1 h2 h3] .
qed

text \<open>
  C7.  When \<open>SUBSCRIPTION_DASHBOARD_NOCACHE\<close> is set to \<open>1\<close>, \<open>true\<close>, \<open>yes\<close> or \<open>on\<close>
  in any mix of upper and lower case, \<open>get_cached_dashboard\<close> returns \<open>None\<close> for every
  user and every store, fresh entries included.  \<open>set_cached_dashboard\<close> does not read
  the variable: it stores the value and the timestamp, and does so identically under any
  other environment.
\<close>

theorem nocache_bypasses_get_only:
  assumes "environ w ''SUBSCRIPTION_DASHBOARD_NOCACHE'' = Some x"
      and "word \<in> set [''1'', ''true'', ''yes'', ''on'']"
      and "same_ignoring_case x word"
  shows "fst (get_cached_dashboard w u st) = None
       \<and> dashboard_cache (set_cached_dashboard w u v st) u = Some v
       \<and> dashboard_cache_ts (set_cached_dashboard w u v st) u = Some (time_now w)
       \<and> set_cached_dashboard (w\<lparr>environ := env'\<rparr>) u v st = set_cached_dashboard w u v st"
proof -
  have "lower x = word"
    by (rule same_ignoring_case_lower[OF assms(3) flag_words_lower[OF assms(2)]])
  then have "nocache w"
    using assms(1,2) by (simp add: nocache_def getenv_def)
  then show ?thesis
    by (simp add: get_cached_dashboard_def set_cached_dashboard_def)
qed

theorem nocache_bypasses_get_only_witness:
  "fst (get_cached_dashboard
          \<lparr>environ = [''SUBSCRIPTION_DASHBOARD_NOCACHE'' \<mapsto> ''TrUe''], time_now = 1\<rparr> ''u1''
          (set_cached_dashboard
             \<lparr>environ = [''SUBSCRIPTION_DASHBOARD_NOCACHE'' \<mapsto> ''TrUe''], time_now = 0\<rparr>
             ''u1'' (5::nat) empty_store)) = None
   \<and> dashboard_cache
       (set_cached_dashboard
          \<lparr>environ = [''SUBSCRIPTION_DASHBOARD_NOCACHE'' \<mapsto> ''TrUe''], time_now = 0\<rparr>
          ''u1'' (5::nat) empty_store) ''u1'' = Some 5
   \<and> fst (get_cached_dashboard \<lparr>environ = Map.empty, time_now = 1\<rparr> ''u1''
          (set_cached_dashboard
             \<lparr>environ = [''SUBSCRIPTION_DASHBOARD_NOCACHE'' \<mapsto> ''TrUe''], time_now = 0\<rparr>
             ''u1'' (5::nat) empty_store)) = Some 5"
proof -
  let ?e = "[''SUBSCRIPTION_DASHBOARD_NOCACHE'' \<mapsto> ''TrUe'']"
  let ?w0 = "\<lparr>environ = ?e, time_now = 0\<rparr>"
  let ?w1 = "\<lparr>environ = ?e, time_now = 1\<rparr>"
  have h2: "''true'' \<in> set [''1'', ''true'', ''yes'', ''on'']" by simp
  have h3: "same_ignoring_case ''TrUe'' ''true''" by (simp add: upper_char_def)
  have h0: "environ ?w0 ''SUBSCRIPTION_DASHBOARD_NOCACHE'' = Some ''TrUe''" by simp
  have h1: "environ ?w1 ''SUBSCRIPTION_DASHBOARD_NOCACHE'' = Some ''TrUe''" by simp
  have a: "fst (get_cached_dashboard ?w1 ''u1'' (set_cached_dashboard ?w0 ''u1'' (5::nat) empty_store)) = None"
    using nocache_bypasses_get_only[OF h1 h2 h3,
            where u = "''u1''" and st = "set_cached_dashboard ?w0 ''u1'' (5::nat) empty_store"]
    by simp
  have b: "dashboard_cache (set_cached_dashboard ?w0 ''u1'' (5::nat) empty_store) ''u1'' = Some 5"
    using nocache_bypasses_get_only[OF h0 h2 h3,
            where u = "''u1''" and v = "5::nat" and st = empty_store]
    by simp
  have c: "fst (get_cached_dashboard \<lparr>environ = Map.empty, time_now = 1\<rparr> ''u1''
                 (set_cached_dashboard ?w0 ''u1'' (5::nat) empty_store)) = Some 5"
    by (simp add: get_cached_dashboard_def set_cached_dashboard_def empty_store_def
        DASHBOARD_CACHE_TTL_SEC_def nocache_unset Let_def)
  show ?thesis using a b c by simp
qed

section \<open>Properties of the blog writer status endpoints\<close>











text \<open>
  C5.  When the task registry does not know the task id (\<open>get_task_status\<close> answers
  \<open>None\<close>), each of the five status handlers raises HTTP 404 "Task not found",
  whatever the registry holds for other ids.
\<close>

theorem unknown_task_is_404:
  assumes "get_task_status task_id = None"
  shows "get_research_status str_of get_task_status task_id
           = Inl (HTTPException 404 ''Task not found'')
       \<and> get_outline_status get_task_status task_id
           = Inl (HTTPException 404 ''Task not found'')
       \<and> content_generation_status str_of get_task_status task_id
           = Inl (HTTPException 404 ''Task not found'')
       \<and> medium_generation_status str_of get_task_status task_id
           = Inl (HTTPException 404 ''Task not found'')
       \<and> rewrite_status get_task_status task_id
           = Inl (HTTPException 404 ''Task not found'')"
  using assms
  by (simp add: get_research_status_def get_outline_status_def content_generation_status_def
      medium_generation_status_def rewrite_status_def)

theorem unknown_task_is_404_witness:
  "example_registry ''task-1'' \<noteq> None \<and> example_registry ''task-2'' \<noteq> None
   \<and> get_research_status example_str_of example_registry ''task-9''
        = Inl (HTTPException 404 ''Task not found'')
   \<and> content_generation_status example_str_of example_registry ''task-9''
        = Inl (HTTPException 404 ''Task not found'')"
proof -
  have h: "example_registry ''task-9'' = None" by (simp add: example_registry_def)
  have k: "example_registry ''task-1'' \<noteq> None \<and> example_registry ''task-2'' \<noteq> None"
    by (simp add: example_registry_def)
  show ?thesis
    using unknown_task_is_404[where get_task_status = example_registry
        and task_id = "''task-9''" and str_of = example_str_of, OF h] k
    by blast
qed

section \<open>Properties of the story video routes\<close>







































section \<open>Properties of the image studio handlers\<close>

lemma save_and_track_facts:
  "(\<forall>e. save_image_file env req result = Inl e \<longrightarrow>
        fst (save_and_track env user_id req result) = None
        \<and> Error (''[images.generate] Unexpected error saving image: '' @ e)
            \<in> set (snd (save_and_track env user_id req result)))
   \<and> (\<forall>name save_error e.
        save_image_file env req result = Inr (Some name, save_error)
        \<and> (save_error = None \<or> save_error = Some [])
        \<and> save_asset_to_library env user_id name (''/api/images/image-studio/images/'' @ name)
              req result = Inl e \<longrightarrow>
        fst (save_and_track env user_id req result)
          = Some (''/api/images/image-studio/images/'' @ name)
        \<and> Error (''[images.generate] Failed to save asset to library: '' @ e)
            \<in> set (snd (save_and_track env user_id req result)))"
  by (auto simp: save_and_track_def Let_def)

lemma respond_with_image_facts:
  "fst (respond_with_image env user_id req result)
     = \<lparr>success = True,
        image_base64 = b64encode env (image_bytes result),
        image_url = fst (save_and_track env user_id req result),
        response_width = result_width result,
        response_height = result_height result,
        response_provider = result_provider result,
        response_model = result_model result,
        response_seed = result_seed result\<rparr>
   \<and> set (snd (save_and_track env user_id req result))
       \<subseteq> set (snd (respond_with_image env user_id req result))"
  by (simp add: respond_with_image_def Let_def)

lemma generate_first_pass:
  assumes "current_user = Some cu" and "cu \<noteq> []"
      and "str_of (dict_get_default cu ''id'' (JStr '''')) = user_id" and "user_id \<noteq> []"
      and "generate_image env 0 req user_id = Inr result"
  shows "generate env str_of req current_user
           = (Inr (fst (respond_with_image env user_id req result)),
              snd (respond_with_image env user_id req result))"
  using assms by (simp add: generate_def Let_def split: prod.splits)

lemma generate_second_pass:
  assumes "current_user = Some cu" and "cu \<noteq> []"
      and "str_of (dict_get_default cu ''id'' (JStr '''')) = user_id" and "user_id \<noteq> []"
      and "generate_image env 0 req user_id = Inl inner"
      and "req_provider req \<noteq> None" and "req_provider req \<noteq> Some []"
      and "generate_image env 1 (req\<lparr>req_provider := None\<rparr>) user_id = Inr result"
  shows "generate env str_of req current_user
           = (Inr (fst (respond_with_image env user_id (req\<lparr>req_provider := None\<rparr>) result)),
              Error (''Image generation attempt 1 failed: '' @ inner)
                # snd (respond_with_image env user_id (req\<lparr>req_provider := None\<rparr>) result))"
  using assms by (simp add: generate_def Let_def split: prod.splits)


lemma generate_after_successful_pass:
  assumes "current_user = Some cu" and "cu \<noteq> []"
      and "str_of (dict_get_default cu ''id'' (JStr '''')) = user_id" and "user_id \<noteq> []"
      and "successful_pass env req user_id = Some (req', result)"
  shows "fst (generate env str_of req current_user)
           = Inr (fst (respond_with_image env user_id req' result))
       \<and> set (snd (respond_with_image env user_id req' result))
           \<subseteq> set (snd (generate env str_of req current_user))"
proof (cases "generate_image env 0 req user_id")
  case (Inr r)
  then have "req' = req" "result = r" using assms(5) by (simp_all add: successful_pass_def)
  then show ?thesis
    using generate_first_pass[where str_of = str_of and env = env and req = req and result = r,
        OF assms(1-4)] Inr by simp
next
  case (Inl inner)
  then have named: "req_provider req \<noteq> None" "req_provider req \<noteq> Some []"
    using assms(5) by (auto simp: successful_pass_def split: if_splits)
  then have second: "generate_image env 1 (req\<lparr>req_provider := None\<rparr>) user_id = Inr result"
    and req': "req' = req\<lparr>req_provider := None\<rparr>"
    using assms(5) Inl by (auto simp: successful_pass_def split: sum.splits)
  show ?thesis
    using generate_second_pass[where str_of = str_of, OF assms(1-4) Inl named second] req' by auto
qed

text \<open>
  C9.  After a successful image generation (a pass of the retry loop in which
  \<open>generate_image\<close> returned), the handler returns an \<open>ImageGenerateResponse\<close> with
  \<open>success = True\<close> and the base64 encoding of the image bytes, whatever saving the file
  and recording the asset do.  When saving raises, the response has no \<open>image_url\<close> and
  the error is logged; when the file is saved and recording it in the asset library
  raises, the response keeps the \<open>image_url\<close> and the error is logged.
\<close>

theorem side_effect_failure_keeps_image_response:
  assumes "current_user = Some cu" and "cu \<noteq> []"
      and "str_of (dict_get_default cu ''id'' (JStr '''')) = user_id" and "user_id \<noteq> []"
      and "successful_pass env req user_id = Some (req', result)"
  shows "\<exists>response records.
           generate env str_of req current_user = (Inr response, records)
         \<and> success response
         \<and> image_base64 response = b64encode env (image_bytes result)
         \<and> (\<forall>e. save_image_file env req' result = Inl e \<longrightarrow>
                image_url response = None
                \<and> Error (''[images.generate] Unexpected error saving image: '' @ e) \<in> set records)
         \<and> (\<forall>name save_error e.
                save_image_file env req' result = Inr (Some name, save_error)
                \<and> (save_error = None \<or> save_error = Some [])
                \<and> save_asset_to_library env user_id name
                      (''/api/images/image-studio/images/'' @ name) req' result = Inl e \<longrightarrow>
                image_url response = Some (''/api/images/image-studio/images/'' @ name)
                \<and> Error (''[images.generate] Failed to save asset to library: '' @ e)
                    \<in> set records)"
proof -
  obtain out records where g: "generate env str_of req current_user = (out, records)"
    by (cases "generate env str_of req current_user")
  let ?response = "fst (respond_with_image env user_id req' result)"
  note p = generate_after_successful_pass[where str_of = str_of, OF assms]
  note r = respond_with_image_facts[of env user_id req' result]
  note s = save_and_track_facts[of env req' result user_id]
  have out: "out = Inr ?response" using p g by simp
  have sub: "set (snd (save_and_track env user_id req' result)) \<subseteq> set records"
    using p r g by auto
  have f1: "success ?response" using r by simp
  have f2: "image_base64 ?response = b64encode env (image_bytes result)" using r by simp
  have f3: "image_url ?response = fst (save_and_track env user_id req' result)" using r by simp
  have f4: "\<forall>e. save_image_file env req' result = Inl e \<longrightarrow>
                image_url ?response = None
                \<and> Error (''[images.generate] Unexpected error saving image: '' @ e) \<in> set records"
    using s sub unfolding f3 by blast
  have f5: "\<forall>name save_error e.
                save_image_file env req' result = Inr (Some name, save_error)
                \<and> (save_error = None \<or> save_error = Some [])
                \<and> save_asset_to_library env user_id name
                      (''/api/images/image-studio/images/'' @ name) req' result = Inl e \<longrightarrow>
                image_url ?response = Some (''/api/images/image-studio/images/'' @ name)
                \<and> Error (''[images.generate] Failed to save asset to library: '' @ e)
                    \<in> set records"
    using s sub unfolding f3 by blast
  show ?thesis using g out f1 f2 f4 f5 by blast
qed

text \<open>
  The theorem on two runs: one where saving the file raises "disk full", and one where
  the file is saved and the asset library raises "database is locked".
\<close>

theorem side_effect_failure_keeps_image_response_witness:
  "(\<exists>response records.
      generate example_image_env example_str_of example_image_request example_user
        = (Inr response, records)
      \<and> success response \<and> image_base64 response = ''UE5H'' \<and> image_url response = None
      \<and> Error ''[images.generate] Unexpected error saving image: disk full'' \<in> set records)
   \<and> (\<exists>response records.
      generate (example_image_env\<lparr>save_image_file := (\<lambda>req result. Inr (Some ''img_fox.png'', None))\<rparr>)
        example_str_of example_image_request example_user
        = (Inr response, records)
      \<and> success response \<and> image_base64 response = ''UE5H''
      \<and> image_url response = Some ''/api/images/image-studio/images/img_fox.png''
      \<and> Error ''[images.generate] Failed to save asset to library: database is locked''
          \<in> set records)"
proof -
  let ?env2 = "example_image_env\<lparr>save_image_file := (\<lambda>req result. Inr (Some ''img_fox.png'', None))\<rparr>"
  have h1: "example_user = Some [(''id'', JStr ''user-1'')]" by (simp add: example_user_def)
  have h2: "[(''id'', JStr ''user-1'')] \<noteq> ([] :: pydict)" by simp
  have h3: "example_str_of (dict_get_default [(''id'', JStr ''user-1'')] ''id'' (JStr '''')) = ''user-1''"
    by (simp add: example_str_of_def dict_get_default_def)
  have h4: "''user-1'' \<noteq> []" by simp
  have p1: "successful_pass example_image_env example_image_request ''user-1''
              = Some (example_image_request, example_image_result)"
    by (simp add: successful_pass_def example_image_env_def)
  have p2: "successful_pass ?env2 example_image_request ''user-1''
              = Some (example_image_request, example_image_result)"
    by (simp add: successful_pass_def example_image_env_def)
  have s1: "save_image_file example_image_env example_image_request example_image_result
              = Inl ''disk full''"
    by (simp add: example_image_env_def)
  have s2: "save_image_file ?env2 example_image_request example_image_result
              = Inr (Some ''img_fox.png'', None)
            \<and> (None = (None :: string option) \<or> None = Some [])
            \<and> save_asset_to_library ?env2 ''user-1'' ''img_fox.png''
                 (''/api/images/image-studio/images/'' @ ''img_fox.png'')
                 example_image_request example_image_result = Inl ''database is locked''"
    by (simp add: example_image_env_def)
  have b: "b64encode example_image_env (image_bytes example_image_result) = ''UE5H''"
       "b64encode ?env2 (image_bytes example_image_result) = ''UE5H''"
    by (simp_all add: example_image_env_def)
  from side_effect_failure_keeps_image_response[where str_of = example_str_of,
      OF h1 h2 h3 h4 p1] s1 b(1)
  have a1: "\<exists>response records.
      generate example_image_env example_str_of example_image_request example_user
        = (Inr response, records)
      \<and> success response \<and> image_base64 response = ''UE5H'' \<and> image_url response = None
      \<and> Error (''[images.generate] Unexpected error saving image: '' @ ''disk full'') \<in> set records"
    by metis
  from side_effect_failure_keeps_image_response[where str_of = example_str_of,
      OF h1 h2 h3 h4 p2] s2 b(2)
  have a2: "\<exists>response records.
      generate ?env2 example_str_of example_image_request example_user
        = (Inr response, records)
      \<and> success response \<and> image_base64 response = ''UE5H''
      \<and> image_url response = Some (''/api/images/image-studio/images/'' @ ''img_fox.png'')
      \<and> Error (''[images.generate] Failed to save asset to library: '' @ ''database is locked'')
          \<in> set records"
    by metis
  show ?thesis using a1 a2 by simp
qed

lemma normalise_onto_no_dotdot:
  "''..'' \<notin> set acc \<Longrightarrow> ''..'' \<notin> set (normalise_onto acc ps)"
proof (induction ps arbitrary: acc)
  case Nil
  then show ?case by simp
next
  case (Cons p ps)
  have "''..'' \<notin> set (butlast acc)" using Cons.prems by (auto dest: in_set_butlastD)
  then show ?case using Cons by simp
qed

lemma normalise_onto_plain:
  "''..'' \<notin> set ps \<Longrightarrow> normalise_onto acc ps = acc @ ps"
  by (induction ps arbitrary: acc) auto

lemma image_studio_dir_no_dotdot: "''..'' \<notin> set (image_studio_dir env)"
  by (simp add: image_studio_dir_def normalise_def normalise_onto_no_dotdot)

lemma path_parts_edited: "path_parts ''edited'' = [''edited'']"
  by (simp add: path_parts_def)

lemma base_subdir_edited:
  "normalise (joinpath (image_studio_dir env) ''edited'') = image_studio_dir env @ [''edited'']"
  using image_studio_dir_no_dotdot[of env]
  by (simp add: joinpath_def path_parts_edited normalise_def normalise_onto_plain)

lemma is_relative_to_shorter:
  "is_relative_to p (b @ x) \<Longrightarrow> is_relative_to p b"
proof -
  assume a: "is_relative_to p (b @ x)"
  have "take (length b) p = take (length b) (take (length (b @ x)) p)"
    by (simp add: min_def)
  also have "\<dots> = take (length b) (b @ x)"
    using a by (simp add: is_relative_to_def)
  also have "\<dots> = b" by simp
  finally show ?thesis by (simp add: is_relative_to_def)
qed

lemma within_subdir_within_dir:
  "is_relative_to (image_path_for env f) (base_subdir_for env f) \<Longrightarrow>
   is_relative_to (image_path_for env f) (image_studio_dir env)"
  by (auto simp: base_subdir_for_def base_subdir_edited dest: is_relative_to_shorter split: if_splits)


lemma example_studio_dir:
  "image_studio_dir example_file_env = [''app'', ''backend'', ''image_studio_images'']"
  by (simp add: image_studio_dir_def example_file_env_def joinpath_def path_parts_def normalise_def)

lemma example_paths:
  "image_path_for example_file_env ''../secret.env'' = [''app'', ''backend'', ''secret.env'']"
  "image_path_for example_file_env ''fox.png''
     = [''app'', ''backend'', ''image_studio_images'', ''fox.png'']"
  "image_path_for example_file_env ''missing.png''
     = [''app'', ''backend'', ''image_studio_images'', ''missing.png'']"
  "image_path_for example_file_env ''edited/../nothing.png''
     = [''app'', ''backend'', ''image_studio_images'', ''nothing.png'']"
  unfolding image_path_for_def example_studio_dir
  by (simp_all add: joinpath_def path_parts_def normalise_def)

lemma example_subdirs:
  "base_subdir_for example_file_env ''fox.png'' = [''app'', ''backend'', ''image_studio_images'']"
  "base_subdir_for example_file_env ''missing.png'' = [''app'', ''backend'', ''image_studio_images'']"
  "base_subdir_for example_file_env ''edited/../nothing.png''
     = [''app'', ''backend'', ''image_studio_images'', ''edited'']"
  unfolding base_subdir_for_def example_studio_dir
  by (simp_all add: joinpath_def path_parts_def normalise_def)

text \<open>
  C10, as the claim states it, fails in two places.  A caller who is not authenticated
  and asks for \<open>../secret.env\<close>, which resolves outside the images directory, gets 401,
  not 403.  An authenticated caller who asks for \<open>edited/../nothing.png\<close> gets 403,
  not 404, although the path resolves to \<open>image_studio_images/nothing.png\<close>, inside the
  images directory, and no such file exists: names that start with \<open>edited/\<close> are held
  to the subdirectory \<open>edited\<close>.
\<close>

theorem serve_image_answers_401_and_403_elsewhere:
  "serve_image_studio_image example_file_env ''../secret.env'' None
     = Inl (HTTPException 401 ''Authentication required'')
   \<and> \<not> is_relative_to (image_path_for example_file_env ''../secret.env'')
          (image_studio_dir example_file_env)
   \<and> serve_image_studio_image example_file_env ''edited/../nothing.png'' example_user
     = Inl (HTTPException 403 ''Access denied: Invalid image path'')
   \<and> is_relative_to (image_path_for example_file_env ''edited/../nothing.png'')
        (image_studio_dir example_file_env)
   \<and> path_status example_file_env (image_path_for example_file_env ''edited/../nothing.png'')
     = Inr False"
proof -
  have a: "serve_image_studio_image example_file_env ''../secret.env'' None
     = Inl (HTTPException 401 ''Authentication required'')"
    by (simp add: serve_image_studio_image_def)
  have b: "\<not> is_relative_to (image_path_for example_file_env ''../secret.env'')
          (image_studio_dir example_file_env)"
    by (simp add: example_paths example_studio_dir is_relative_to_def)
  have c: "serve_image_studio_image example_file_env ''edited/../nothing.png'' example_user
     = Inl (HTTPException 403 ''Access denied: Invalid image path'')"
    by (simp add: serve_image_studio_image_def example_paths example_subdirs example_user_def
        is_relative_to_def Let_def)
  have d: "is_relative_to (image_path_for example_file_env ''edited/../nothing.png'')
        (image_studio_dir example_file_env)"
    by (simp add: example_paths example_studio_dir is_relative_to_def)
  have e: "path_status example_file_env (image_path_for example_file_env ''edited/../nothing.png'')
     = Inr False"
    unfolding example_paths by (simp add: example_file_env_def)
  show ?thesis using a b c d e by simp
qed

text \<open>
  C10, amended.  A \<open>FileResponse\<close> is returned only for a file whose resolved path lies
  inside the image-studio images directory and exists.  For an authenticated caller and
  a name without a NUL character: a name whose resolved path falls outside the directory
  it is served from (the images directory, or its subdirectory \<open>edited\<close> for a name that
  starts with \<open>edited/\<close>) gets 403, so in particular every path outside the images
  directory gets 403; a path inside the directory it is served from that does not exist
  gets 404.  A caller who is not authenticated gets 401.  (Resolution is the lexical one
  of a file system without symbolic links.)
\<close>

theorem image_outside_directory_is_refused:
  "(\<forall>r. serve_image_studio_image env image_filename current_user = Inr r \<longrightarrow>
        (\<exists>name. r = FileResponse (image_path_for env image_filename) ''image/png'' name)
        \<and> is_relative_to (image_path_for env image_filename) (image_studio_dir env)
        \<and> path_status env (image_path_for env image_filename) = Inr True)
   \<and> (current_user \<noteq> None \<and> current_user \<noteq> Some [] \<and> CHR 0x00 \<notin> set image_filename \<longrightarrow>
        (\<not> is_relative_to (image_path_for env image_filename) (image_studio_dir env) \<longrightarrow>
           serve_image_studio_image env image_filename current_user
             = Inl (HTTPException 403 ''Access denied: Invalid image path''))
        \<and> (\<not> is_relative_to (image_path_for env image_filename)
                (base_subdir_for env image_filename) \<longrightarrow>
           serve_image_studio_image env image_filename current_user
             = Inl (HTTPException 403 ''Access denied: Invalid image path''))
        \<and> (is_relative_to (image_path_for env image_filename)
               (base_subdir_for env image_filename)
            \<and> path_status env (image_path_for env image_filename) = Inr False \<longrightarrow>
           serve_image_studio_image env image_filename current_user
             = Inl (HTTPException 404 ''Image not found'')))
   \<and> (current_user = None \<or> current_user = Some [] \<longrightarrow>
        serve_image_studio_image env image_filename current_user
          = Inl (HTTPException 401 ''Authentication required''))"
proof -
  let ?p = "image_path_for env image_filename"
  let ?b = "base_subdir_for env image_filename"
  note w = within_subdir_within_dir[of env image_filename]
  have served: "\<forall>r. serve_image_studio_image env image_filename current_user = Inr r \<longrightarrow>
        (\<exists>name. r = FileResponse ?p ''image/png'' name)
        \<and> is_relative_to ?p (image_studio_dir env)
        \<and> path_status env ?p = Inr True"
    using w
    by (auto simp: serve_image_studio_image_def Let_def split: if_splits sum.splits bool.splits)
  have outside_sub: "current_user \<noteq> None \<and> current_user \<noteq> Some []
        \<and> CHR 0x00 \<notin> set image_filename \<and> \<not> is_relative_to ?p ?b \<longrightarrow>
           serve_image_studio_image env image_filename current_user
             = Inl (HTTPException 403 ''Access denied: Invalid image path'')"
    by (simp add: serve_image_studio_image_def Let_def)
  have outside: "current_user \<noteq> None \<and> current_user \<noteq> Some []
        \<and> CHR 0x00 \<notin> set image_filename \<and> \<not> is_relative_to ?p (image_studio_dir env) \<longrightarrow>
           serve_image_studio_image env image_filename current_user
             = Inl (HTTPException 403 ''Access denied: Invalid image path'')"
    using outside_sub w by blast
  have missing: "current_user \<noteq> None \<and> current_user \<noteq> Some []
        \<and> CHR 0x00 \<notin> set image_filename
        \<and> is_relative_to ?p ?b \<and> path_status env ?p = Inr False \<longrightarrow>
           serve_image_studio_image env image_filename current_user
             = Inl (HTTPException 404 ''Image not found'')"
    by (simp add: serve_image_studio_image_def Let_def)
  have unauth: "current_user = None \<or> current_user = Some [] \<longrightarrow>
        serve_image_studio_image env image_filename current_user
          = Inl (HTTPException 401 ''Authentication required'')"
    by (auto simp: serve_image_studio_image_def)
  show ?thesis using served outside_sub outside missing unauth by blast
qed

text \<open>
  The theorem in the example file system, for an authenticated caller: \<open>../secret.env\<close>
  exists but lies outside the images directory and is refused with 403; \<open>fox.png\<close> is
  served; \<open>missing.png\<close> is a 404.
\<close>

theorem image_outside_directory_is_refused_witness:
  "path_status example_file_env (image_path_for example_file_env ''../secret.env'') = Inr True
   \<and> serve_image_studio_image example_file_env ''../secret.env'' example_user
       = Inl (HTTPException 403 ''Access denied: Invalid image path'')
   \<and> serve_image_studio_image example_file_env ''missing.png'' example_user
       = Inl (HTTPException 404 ''Image not found'')
   \<and> serve_image_studio_image example_file_env ''fox.png'' example_user
       = Inr (FileResponse [''app'', ''backend'', ''image_studio_images'', ''fox.png'']
                ''image/png'' ''fox.png'')
   \<and> is_relative_to (image_path_for example_file_env ''fox.png'')
        (image_studio_dir example_file_env)"
proof -
  have auth: "example_user \<noteq> None \<and> example_user \<noteq> Some []
              \<and> CHR 0x00 \<notin> set ''../secret.env''"
    by (simp add: example_user_def)
  have auth2: "example_user \<noteq> None \<and> example_user \<noteq> Some []
              \<and> CHR 0x00 \<notin> set ''missing.png''"
    by (simp add: example_user_def)
  have out: "\<not> is_relative_to (image_path_for example_file_env ''../secret.env'')
                 (image_studio_dir example_file_env)"
    by (simp add: example_paths example_studio_dir is_relative_to_def)
  have ex: "path_status example_file_env (image_path_for example_file_env ''../secret.env'')
              = Inr True"
    unfolding example_paths by (simp add: example_file_env_def)
  have miss: "is_relative_to (image_path_for example_file_env ''missing.png'')
                (base_subdir_for example_file_env ''missing.png'')
              \<and> path_status example_file_env (image_path_for example_file_env ''missing.png'')
                  = Inr False"
    unfolding example_paths example_subdirs by (simp add: is_relative_to_def example_file_env_def)
  have fox: "serve_image_studio_image example_file_env ''fox.png'' example_user
       = Inr (FileResponse [''app'', ''backend'', ''image_studio_images'', ''fox.png'']
                ''image/png'' ''fox.png'')"
    unfolding serve_image_studio_image_def example_paths example_subdirs
    by (simp add: example_user_def is_relative_to_def example_file_env_def)
  have a: "serve_image_studio_image example_file_env ''../secret.env'' example_user
       = Inl (HTTPException 403 ''Access denied: Invalid image path'')"
    using image_outside_directory_is_refused[of example_file_env "''../secret.env''" example_user]
      auth out by blast
  have b: "serve_image_studio_image example_file_env ''missing.png'' example_user
       = Inl (HTTPException 404 ''Image not found'')"
    using image_outside_directory_is_refused[of example_file_env "''missing.png''" example_user]
      auth2 miss by blast
  have c: "is_relative_to (image_path_for example_file_env ''fox.png'')
        (image_studio_dir example_file_env)"
    using image_outside_directory_is_refused[of example_file_env "''fox.png''" example_user] fox
    by blast
  show ?thesis using ex a b fox c by simp
qed

end
